theory Spec2Isabelle
  imports Main "HOL-Library.AList"
begin

section \<open>m\_sqlauth: authentication against an external SQL store\<close>

text \<open>
  A shallow embedding of \<^verbatim>\<open>src/m_sqlauth.cpp\<close>: the completion handler
  \<^verbatim>\<open>SQLAuthResult\<close> (constructor, destructor, \<^verbatim>\<open>OnResult\<close>, \<^verbatim>\<open>OnError\<close>) and the entry
  point \<^verbatim>\<open>ModuleSQLAuth::OnCheckAuthentication\<close>. Every effect the C++ performs on the
  host (a call on the \<^verbatim>\<open>IdentifyRequest\<close>, a log line, a message to the user, a module
  event, a query handed to the SQL provider, an allocation or a field write on the
  account tables) is appended, in program order, to the \<open>trace\<close> of the state and
  applied to the account tables where it changes them.
\<close>

subsection \<open>Strings\<close>

text \<open>
  \<^verbatim>\<open>Anope::string\<close> wraps \<^verbatim>\<open>std::string\<close>: a sequence of bytes. \<^verbatim>\<open>c_str()\<close> hands a C
  function the bytes up to the first NUL.
\<close>

definition c_str :: "string \<Rightarrow> string" where
  "c_str s = takeWhile (\<lambda>c. c \<noteq> CHR 0x00) s"

text \<open>
  \<^verbatim>\<open>s.find(pat)\<close>: the lowest position at which \<open>pat\<close> occurs in \<open>s\<close>; \<open>None\<close> is
  \<^verbatim>\<open>npos\<close>. \<open>find_from s pat i\<close> searches the suffix \<open>s\<close> that starts at position \<open>i\<close>.
\<close>

fun find_from :: "string \<Rightarrow> string \<Rightarrow> nat \<Rightarrow> nat option" where
  "find_from [] pat i = (if pat = [] then Some i else None)"
| "find_from (c # cs) pat i =
     (if take (length pat) (c # cs) = pat then Some i else find_from cs pat (Suc i))"

definition find_str :: "string \<Rightarrow> string \<Rightarrow> nat option" where
  "find_str s pat = find_from s pat 0"

text \<open>
  \<^verbatim>\<open>s.substr(pos)\<close>: the bytes from \<open>pos\<close> to the end; \<^verbatim>\<open>std::out_of_range\<close> (here
  \<open>None\<close>) when \<open>pos\<close> is beyond the size of \<open>s\<close>.
\<close>

definition substr :: "string \<Rightarrow> nat \<Rightarrow> string option" where
  "substr s pos = (if length s < pos then None else Some (drop pos s))"

subsection \<open>Hash prefix normalisation (lines 67--71)\<close>

text \<open>
  \<^verbatim>\<open>if (hash.find("bcrypt$$") == 0) hash = "$" + hash.substr(8);\<close>
  The result is \<open>None\<close> where \<^verbatim>\<open>substr\<close> would raise.
\<close>

definition normalize_hash :: "string \<Rightarrow> string option" where
  "normalize_hash hash =
     (if find_str hash ''bcrypt$$'' = Some 0
      then map_option (\<lambda>rest. ''$'' @ rest) (substr hash 8)
      else Some hash)"


subsection \<open>The host's objects\<close>

text \<open>
  Modelled from the spec: the classes of the host (Anope's \<^verbatim>\<open>module.h\<close> and
  \<^verbatim>\<open>modules/sql.h\<close>) are not part of the repository. Each is modelled with the members
  this module touches. A \<^verbatim>\<open>User\<close> is a live session (\<^verbatim>\<open>u->nick\<close>, \<^verbatim>\<open>u->ip.addr()\<close>); an
  \<^verbatim>\<open>IdentifyRequest\<close> is the PendingLogin of the specification.
\<close>

record User =
  nick :: string
  ip :: string

record IdentifyRequest =
  account :: string
  password :: string

definition GetAccount :: "IdentifyRequest \<Rightarrow> string" where
  "GetAccount r = account r"

definition GetPassword :: "IdentifyRequest \<Rightarrow> string" where
  "GetPassword r = password r"

text \<open>
  Modelled from the spec: \<^verbatim>\<open>SQL::Query\<close>, a template with named parameters;
  \<^verbatim>\<open>SetValue\<close> binds (or rebinds) one name.
\<close>

record Query =
  q_query :: string
  parameters :: "(string \<times> string) list"

definition SetValue :: "Query \<Rightarrow> string \<Rightarrow> string \<Rightarrow> Query" where
  "SetValue q k v = q\<lparr>parameters := AList.update k v (parameters q)\<rparr>"

text \<open>
  Modelled from the spec: \<^verbatim>\<open>SQL::Result\<close>, the LookupResult of the specification:
  rows of named fields, with the query it answers and the error text of a failed
  query. \<^verbatim>\<open>Get\<close> raises \<^verbatim>\<open>SQL::Exception\<close> (here \<open>Inl\<close>) for a row that is out of
  bounds and for a column the row does not have.
\<close>

datatype SQL_Exception = Exception string

record Result =
  entries :: "(string \<times> string) list list"
  r_query :: Query
  r_error :: string

definition Rows :: "Result \<Rightarrow> nat" where
  "Rows r = length (entries r)"

definition Get :: "Result \<Rightarrow> nat \<Rightarrow> string \<Rightarrow> SQL_Exception + string" where
  "Get r index col =
     (if length (entries r) \<le> index then Inl (Exception ''Out of bounds access to SQLResult'')
      else case map_of (entries r ! index) col of
             None \<Rightarrow> Inl (Exception (''Unknown column name in SQLResult: '' @ col))
           | Some v \<Rightarrow> Inr v)"

definition GetQuery :: "Result \<Rightarrow> Query" where
  "GetQuery r = r_query r"

definition GetError :: "Result \<Rightarrow> string" where
  "GetError r = r_error r"

text \<open>
  Modelled from the spec: the LocalAccount of the specification. A \<^verbatim>\<open>NickAlias\<close> (a
  registered nickname) points to its \<^verbatim>\<open>NickCore\<close> (the account, which carries the
  email); several aliases may share one core, so cores live in a heap addressed by
  \<open>nat\<close> and \<open>nc\<close> is an address.
\<close>

record NickCore =
  display :: string
  email :: string

record NickAlias =
  na_nick :: string
  nc :: nat

subsection \<open>Effects and the state\<close>

datatype log_type = LOG_COMMAND | LOG_MODULE

datatype event =
    ReqHold
  | ReqRelease
  | ReqSuccess
  | LogLine log_type string
  | Run Query
  | NewNickCore string
  | NewNickAlias string
  | OnNickRegister string
  | SetEmail string string
  | SendMessage string

text \<open>
  \<open>ReqHold\<close>, \<open>ReqRelease\<close> and \<open>ReqSuccess\<close> are \<^verbatim>\<open>req->Hold(me)\<close>, \<^verbatim>\<open>req->Release(me)\<close> and
  \<^verbatim>\<open>req->Success(me)\<close>; \<open>Run q\<close> is \<^verbatim>\<open>SQL->Run(sink, q)\<close>; \<open>OnNickRegister n\<close> is the module
  event \<^verbatim>\<open>FOREACH_MOD(OnNickRegister, (user, na, ""))\<close>; \<open>SetEmail n e\<close> is the write
  \<^verbatim>\<open>na->nc->email = e\<close> through the alias \<open>n\<close>.
\<close>

record state =
  trace :: "event list"
  NickAliasList :: "string \<rightharpoonup> NickAlias"
  cores :: "nat \<Rightarrow> NickCore"
  next_core :: nat

definition emit :: "event \<Rightarrow> state \<Rightarrow> state" where
  "emit e st = st\<lparr>trace := trace st @ [e]\<rparr>"

text \<open>The events a run added to the trace, and the account tables of a state.\<close>

definition events_since :: "state \<Rightarrow> state \<Rightarrow> event list" where
  "events_since st st' = drop (length (trace st)) (trace st')"

definition accounts :: "state \<Rightarrow> (string \<rightharpoonup> NickAlias) \<times> (nat \<Rightarrow> NickCore) \<times> nat" where
  "accounts st = (NickAliasList st, cores st, next_core st)"

fun is_creation :: "event \<Rightarrow> bool" where
  "is_creation (NewNickAlias n) = True"
| "is_creation e = False"

fun is_email_update :: "event \<Rightarrow> bool" where
  "is_email_update (SetEmail n e) = True"
| "is_email_update e = False"

text \<open>
  Modelled from the spec: \<^verbatim>\<open>NickAlias::Find\<close> and the two constructors.
  \<^verbatim>\<open>new NickCore(name)\<close> allocates a core with an empty email;
  \<^verbatim>\<open>new NickAlias(name, core)\<close> registers the alias under its name, where \<^verbatim>\<open>Find\<close> looks
  it up. (The host compares nicknames case-insensitively; the table here is keyed by the
  name as given.) Both constructors are taken to succeed.
\<close>

definition Find :: "state \<Rightarrow> string \<Rightarrow> NickAlias option" where
  "Find st n = NickAliasList st n"

definition new_NickCore :: "string \<Rightarrow> state \<Rightarrow> nat \<times> state" where
  "new_NickCore name st =
     (next_core st,
      emit (NewNickCore name)
        (st\<lparr>cores := (cores st)(next_core st := \<lparr>display = name, email = []\<rparr>),
            next_core := Suc (next_core st)\<rparr>))"

definition new_NickAlias :: "string \<Rightarrow> nat \<Rightarrow> state \<Rightarrow> NickAlias \<times> state" where
  "new_NickAlias name core st =
     (\<lparr>na_nick = name, nc = core\<rparr>,
      emit (NewNickAlias name)
        (st\<lparr>NickAliasList := (NickAliasList st)(name \<mapsto> \<lparr>na_nick = name, nc = core\<rparr>)\<rparr>))"

definition set_email :: "NickAlias \<Rightarrow> string \<Rightarrow> state \<Rightarrow> state" where
  "set_email na e st =
     emit (SetEmail (na_nick na) e)
       (st\<lparr>cores := (cores st)(nc na := (cores st (nc na))\<lparr>email := e\<rparr>)\<rparr>)"

text \<open>The email stored for a name, through its alias; \<open>None\<close> when the name is not registered.\<close>

definition email_of :: "state \<Rightarrow> string \<Rightarrow> string option" where
  "email_of st n = map_option (\<lambda>na. email (cores st (nc na))) (Find st n)"

subsection \<open>The completion handler \<^verbatim>\<open>SQLAuthResult\<close> (lines 27--127)\<close>

text \<open>
  The members of the handler. \<open>user\<close> is a \<^verbatim>\<open>Reference<User>\<close>: \<open>None\<close> when no
  session was attached or the session has gone.
\<close>

record SQLAuthResult =
  user :: "User option"
  req :: IdentifyRequest
  currPass :: string

text \<open>The constructor holds the request; the destructor (\<^verbatim>\<open>delete this\<close>) releases it.\<close>

definition SQLAuthResult_ctor ::
  "User option \<Rightarrow> string \<Rightarrow> IdentifyRequest \<Rightarrow> state \<Rightarrow> SQLAuthResult \<times> state" where
  "SQLAuthResult_ctor u cp r st = (\<lparr>user = u, req = r, currPass = cp\<rparr>, emit ReqHold st)"

definition SQLAuthResult_dtor :: "SQLAuthResult \<Rightarrow> state \<Rightarrow> state" where
  "SQLAuthResult_dtor v st = emit ReqRelease st"

text \<open>
  Lines 57--65: both fields start empty; the two assignments run in order inside one
  \<^verbatim>\<open>try\<close>, and the \<^verbatim>\<open>catch\<close> swallows the exception of the first \<^verbatim>\<open>Get\<close> that fails.
  The pair returned is (\<open>hash\<close>, \<open>email\<close>).
\<close>

definition extract_fields :: "Result \<Rightarrow> string \<times> string" where
  "extract_fields r =
     (case Get r 0 ''password'' of
        Inl ex \<Rightarrow> ([], [])
      | Inr h \<Rightarrow>
          (case Get r 0 ''email'' of
             Inl ex \<Rightarrow> (h, [])
           | Inr e \<Rightarrow> (h, e)))"

text \<open>
  Lines 101--116, the AccountSynchronizer of the specification. \<open>NickServ\<close> tells
  whether \<^verbatim>\<open>Config->GetClient("NickServ")\<close> found the service bot.
\<close>

definition sync :: "string \<Rightarrow> User option \<Rightarrow> bool \<Rightarrow> string \<Rightarrow> state \<Rightarrow> state" where
  "sync acct u NickServ mail st =
     (let (na, st1) =
            (case Find st acct of
               Some na \<Rightarrow> (na, st)
             | None \<Rightarrow>
                 (let (core, sa) = new_NickCore acct st;
                      (na, sb) = new_NickAlias acct core sa;
                      sc = emit (OnNickRegister (na_nick na)) sb;
                      sd = (if u \<noteq> None \<and> NickServ
                            then emit (SendMessage (''Your account '' @ [CHR 0x02] @ c_str (na_nick na)
                                         @ [CHR 0x02] @ '' has been confirmed.'')) sc
                            else sc)
                  in (na, sd)))
      in if mail \<noteq> [] \<and> mail \<noteq> email (cores st1 (nc na))
         then (let se = set_email na mail st1
               in if u \<noteq> None \<and> NickServ
                  then emit (SendMessage (''E-mail set to '' @ [CHR 0x02] @ c_str mail
                               @ [CHR 0x02] @ ''.'')) se
                  else se)
         else st1)"

text \<open>
  The path by which a callback ends, named as the VerificationOutcome of the
  specification names it. \<open>Fault\<close> is one more: an exception that nothing catches
  leaves the callback, and the handler is not deleted.
\<close>

datatype outcome = NotFound | QueryError | HashMalformed | Mismatch | Success | Fault

text \<open>
  \<^verbatim>\<open>OnResult\<close> (lines 45--120). The bcrypt primitive \<^verbatim>\<open>_crypt_blowfish_rn\<close> is not part of
  the repository and is a parameter: given the password and the setting as C strings
  it returns \<open>None\<close> (a null pointer) or the C string it left in \<^verbatim>\<open>hash_output\<close>.
\<close>

definition OnResult ::
  "(string \<Rightarrow> string \<Rightarrow> string option) \<Rightarrow> bool \<Rightarrow> SQLAuthResult \<Rightarrow> Result \<Rightarrow> state
     \<Rightarrow> outcome \<times> state" where
  "OnResult crypt_blowfish_rn NickServ v r st =
     (if Rows r = 0
      then (NotFound,
            SQLAuthResult_dtor v
              (emit (LogLine LOG_COMMAND (''[sql_auth]: User @'' @ GetAccount (req v) @ ''@ NOT found'')) st))
      else
        (let s1 = emit (LogLine LOG_COMMAND (''[sql_auth]: User @'' @ GetAccount (req v) @ ''@ found'')) st;
             s2 = emit (LogLine LOG_COMMAND (''[sql_auth]: Authentication for user @''
                          @ GetAccount (req v) @ ''@ processing...'')) s1;
             (hash0, mail) = extract_fields r
         in case normalize_hash hash0 of
              None \<Rightarrow> (Fault, s2)
            | Some hash \<Rightarrow>
                (case crypt_blowfish_rn (c_str (currPass v)) (c_str hash) of
                   None \<Rightarrow>
                     (HashMalformed,
                      SQLAuthResult_dtor v
                        (emit (LogLine LOG_COMMAND ''[sql_auth]: Bcrypt comparison failed'') s2))
                 | Some hash_output \<Rightarrow>
                     (let is_match = (hash = hash_output)
                      in if \<not> is_match
                         then (Mismatch,
                               SQLAuthResult_dtor v
                                 (emit (LogLine LOG_COMMAND (''[sql_auth]: Unsuccessful authentication for ''
                                          @ GetAccount (req v)))
                                    (emit (LogLine LOG_COMMAND ''[sql_auth]: ERROR: hash NOT EQUAL pass'') s2)))
                         else
                           (let s3 = emit (LogLine LOG_COMMAND (''[sql_auth]: User @''
                                             @ GetAccount (req v) @ ''@ LOGGED IN'')) s2;
                                s4 = sync (GetAccount (req v)) (user v) NickServ mail s3;
                                s5 = emit ReqSuccess s4
                            in (Success, SQLAuthResult_dtor v s5))))))"

text \<open>\<^verbatim>\<open>OnError\<close> (lines 122--126).\<close>

definition OnError :: "SQLAuthResult \<Rightarrow> Result \<Rightarrow> state \<Rightarrow> outcome \<times> state" where
  "OnError v r st =
     (QueryError,
      SQLAuthResult_dtor v
        (emit (LogLine LOG_MODULE (''[sql_auth]: Error when executing query '' @ q_query (GetQuery r)
                 @ '': '' @ GetError r)) st))"

subsection \<open>The module \<^verbatim>\<open>ModuleSQLAuth\<close> (lines 129--205)\<close>

text \<open>
  \<open>SQL\<close> is the \<^verbatim>\<open>ServiceReference<SQL::Provider>\<close>: true when a provider of the
  configured engine is available.
\<close>

record ModuleSQLAuth =
  engine :: string
  query :: string
  disable_reason :: string
  disable_email_reason :: string
  SQL :: bool

text \<open>
  \<^verbatim>\<open>OnCheckAuthentication\<close> (lines 171--195). It returns the handler it attached to the
  query, if it dispatched one.
\<close>

definition OnCheckAuthentication ::
  "ModuleSQLAuth \<Rightarrow> User option \<Rightarrow> IdentifyRequest \<Rightarrow> state \<Rightarrow> SQLAuthResult option \<times> state" where
  "OnCheckAuthentication m u r st =
     (if \<not> SQL m
      then (None, emit (LogLine LOG_MODULE ''[sql_auth]: Unable to find SQL engine'') st)
      else
        (let q0 = \<lparr>q_query = query m, parameters = []\<rparr>;
             q1 = SetValue q0 ''a'' (GetAccount r);
             q2 = SetValue q1 ''p'' (GetPassword r);
             q4 = (case u of
                     Some usr \<Rightarrow> SetValue (SetValue q2 ''n'' (nick usr)) ''i'' (ip usr)
                   | None \<Rightarrow> SetValue (SetValue q2 ''n'' []) ''i'' []);
             (v, s1) = SQLAuthResult_ctor u (GetPassword r) r st;
             s2 = emit (Run q4) s1;
             s3 = emit (LogLine LOG_COMMAND (''[sql_auth]: Checking authentication for '' @ GetAccount r)) s2
         in (Some v, s3)))"

subsection \<open>One attempt, from dispatch to completion\<close>

text \<open>
  The SQL provider answers a query it was given by calling exactly one of \<^verbatim>\<open>OnResult\<close>
  and \<^verbatim>\<open>OnError\<close> on the handler, once. \<open>attempt\<close> is \<^verbatim>\<open>OnCheckAuthentication\<close> followed
  by that callback, when a query was dispatched. The session may have gone in between
  (\<open>gone\<close>): the handler's \<^verbatim>\<open>Reference<User>\<close> is then null.
\<close>

datatype completion = Answered Result | Failed Result

definition deliver ::
  "(string \<Rightarrow> string \<Rightarrow> string option) \<Rightarrow> bool \<Rightarrow> SQLAuthResult \<Rightarrow> completion \<Rightarrow> state
     \<Rightarrow> outcome \<times> state" where
  "deliver crypt_blowfish_rn NickServ v c st =
     (case c of
        Answered r \<Rightarrow> OnResult crypt_blowfish_rn NickServ v r st
      | Failed r \<Rightarrow> OnError v r st)"

definition attempt ::
  "(string \<Rightarrow> string \<Rightarrow> string option) \<Rightarrow> bool \<Rightarrow> ModuleSQLAuth \<Rightarrow> User option
     \<Rightarrow> IdentifyRequest \<Rightarrow> bool \<Rightarrow> completion \<Rightarrow> state \<Rightarrow> outcome option \<times> state" where
  "attempt crypt_blowfish_rn NickServ m u r gone c st =
     (case OnCheckAuthentication m u r st of
        (None, s1) \<Rightarrow> (None, s1)
      | (Some v, s1) \<Rightarrow>
          (let v' = (if gone then v\<lparr>user := None\<rparr> else v);
               (out, s2) = deliver crypt_blowfish_rn NickServ v' c s1
           in (Some out, s2)))"

subsection \<open>Vocabulary for the properties\<close>

text \<open>A state with more events on its trace and nothing else changed.\<close>

definition emits :: "event list \<Rightarrow> state \<Rightarrow> state" where
  "emits evs st = st\<lparr>trace := trace st @ evs\<rparr>"

text \<open>The two log lines of lines 54--55, written on every path that found a row.\<close>

definition found_lines :: "string \<Rightarrow> event list" where
  "found_lines acct =
     [LogLine LOG_COMMAND (''[sql_auth]: User @'' @ acct @ ''@ found''),
      LogLine LOG_COMMAND (''[sql_auth]: Authentication for user @'' @ acct @ ''@ processing...'')]"

text \<open>The events of lines 105--108 (a new account) and of lines 113--115 (an email update).\<close>

definition creation_events :: "string \<Rightarrow> User option \<Rightarrow> bool \<Rightarrow> event list" where
  "creation_events acct u NickServ =
     [NewNickCore acct, NewNickAlias acct, OnNickRegister acct] @
     (if u \<noteq> None \<and> NickServ
      then [SendMessage (''Your account '' @ [CHR 0x02] @ c_str acct @ [CHR 0x02] @ '' has been confirmed.'')]
      else [])"

definition email_events :: "string \<Rightarrow> User option \<Rightarrow> bool \<Rightarrow> string \<Rightarrow> event list" where
  "email_events n u NickServ mail =
     SetEmail n mail #
     (if u \<noteq> None \<and> NickServ
      then [SendMessage (''E-mail set to '' @ [CHR 0x02] @ c_str mail @ [CHR 0x02] @ ''.'')]
      else [])"

text \<open>What \<open>sync\<close> adds to the trace, read off the state it starts from.\<close>

definition sync_events :: "string \<Rightarrow> User option \<Rightarrow> bool \<Rightarrow> string \<Rightarrow> state \<Rightarrow> event list" where
  "sync_events acct u NickServ mail st =
     (case Find st acct of
        None \<Rightarrow> creation_events acct u NickServ @ (if mail \<noteq> [] then email_events acct u NickServ mail else [])
      | Some na \<Rightarrow>
          (if mail \<noteq> [] \<and> mail \<noteq> email (cores st (nc na))
           then email_events (na_nick na) u NickServ mail else []))"

subsection \<open>Concrete inputs\<close>

text \<open>
  A stand-in for the bcrypt primitive, to run the handler on concrete inputs: it rejects
  a setting that does not start with \<open>$\<close> (as bcrypt rejects one that does not start
  with \<open>$2\<close>) and otherwise returns \<open>$\<close> followed by the password. It is used in the
  closed examples only; every general theorem holds for any primitive.
\<close>

definition demo_crypt :: "string \<Rightarrow> string \<Rightarrow> string option" where
  "demo_crypt key setting = (if take 1 setting = ''$'' then Some (''$'' @ key) else None)"

text \<open>A second stand-in, which accepts every setting.\<close>

definition lenient_crypt :: "string \<Rightarrow> string \<Rightarrow> string option" where
  "lenient_crypt key setting = Some (''$'' @ key)"

definition no_accounts :: state where
  "no_accounts = \<lparr>trace = [], NickAliasList = Map.empty,
                  cores = (\<lambda>a. \<lparr>display = [], email = []\<rparr>), next_core = 0\<rparr>"

definition alice_registered :: state where
  "alice_registered =
     \<lparr>trace = [], NickAliasList = [''alice'' \<mapsto> \<lparr>na_nick = ''alice'', nc = 0\<rparr>],
      cores = (\<lambda>a. \<lparr>display = ''alice'', email = ''alice@example.org''\<rparr>), next_core = 1\<rparr>"

definition alice :: IdentifyRequest where
  "alice = \<lparr>account = ''alice'', password = ''secret''\<rparr>"

definition handler :: SQLAuthResult where
  "handler = \<lparr>user = None, req = alice, currPass = ''secret''\<rparr>"

definition rows_of :: "(string \<times> string) list list \<Rightarrow> Result" where
  "rows_of es = \<lparr>entries = es, r_query = \<lparr>q_query = ''SELECT 1'', parameters = []\<rparr>, r_error = []\<rparr>"

definition sqlauth :: "bool \<Rightarrow> ModuleSQLAuth" where
  "sqlauth available =
     \<lparr>engine = ''mysql/main'', query = ''SELECT password, email FROM users WHERE name = @a@'',
      disable_reason = [], disable_email_reason = [], SQL = available\<rparr>"

subsection \<open>Facts about the string functions\<close>

lemma find_from_lower: "find_from s pat i = Some j \<Longrightarrow> i \<le> j"
proof (induction s arbitrary: i)
  case Nil
  then show ?case by (simp split: if_splits)
next
  case (Cons c cs)
  show ?case
  proof (cases "take (length pat) (c # cs) = pat")
    case True
    with Cons.prems show ?thesis by simp
  next
    case False
    with Cons.prems have "find_from cs pat (Suc i) = Some j" by simp
    from Cons.IH [OF this] show ?thesis by simp
  qed
qed

lemma find_str_zero: "find_str s pat = Some 0 \<longleftrightarrow> take (length pat) s = pat"
proof (cases s)
  case Nil
  then show ?thesis by (auto simp: find_str_def)
next
  case (Cons c cs)
  show ?thesis
  proof (cases "take (length pat) (c # cs) = pat")
    case True
    with Cons show ?thesis by (simp add: find_str_def)
  next
    case False
    have "find_from cs pat (Suc 0) \<noteq> Some 0"
      using find_from_lower [of cs pat "Suc 0" 0] by auto
    with False Cons show ?thesis by (simp add: find_str_def)
  qed
qed

lemma tagged_long: "take 8 s = ''bcrypt$$'' \<Longrightarrow> 8 \<le> length s"
proof -
  assume a: "take 8 s = ''bcrypt$$''"
  have "length (take 8 s) = 8" unfolding a by simp
  then show ?thesis by simp
qed

lemma find_tag_zero: "find_str s ''bcrypt$$'' = Some 0 \<longleftrightarrow> take 8 s = ''bcrypt$$''"
proof -
  have "length ''bcrypt$$'' = 8" by simp
  with find_str_zero [of s "''bcrypt$$''"] show ?thesis by (simp only:)
qed

lemma normalize_hash_tagged: "take 8 h = ''bcrypt$$'' \<Longrightarrow> normalize_hash h = Some (''$'' @ drop 8 h)"
  using tagged_long [of h] by (simp add: normalize_hash_def find_tag_zero substr_def)

lemma normalize_hash_untagged: "take 8 h \<noteq> ''bcrypt$$'' \<Longrightarrow> normalize_hash h = Some h"
  by (simp add: normalize_hash_def find_tag_zero)

lemma normalize_hash_total: "\<exists>n. normalize_hash h = Some n"
  by (cases "take 8 h = ''bcrypt$$''") (simp_all add: normalize_hash_tagged normalize_hash_untagged)

subsection \<open>Facts about the trace\<close>

lemmas fixture_defs = demo_crypt_def lenient_crypt_def no_accounts_def alice_registered_def alice_def handler_def
  rows_of_def sqlauth_def

lemmas run_defs = OnResult_def OnError_def OnCheckAuthentication_def attempt_def deliver_def
  SQLAuthResult_ctor_def SQLAuthResult_dtor_def sync_def extract_fields_def Get_def Rows_def
  GetAccount_def GetPassword_def GetQuery_def GetError_def Find_def new_NickCore_def
  new_NickAlias_def set_email_def emit_def emits_def events_since_def accounts_def email_of_def
  normalize_hash_def find_str_def substr_def c_str_def SetValue_def found_lines_def

lemma trace_emit: "trace (emit e st) = trace st @ [e]"
  by (simp add: emit_def)

lemma accounts_emit: "accounts (emit e st) = accounts st"
  by (simp add: emit_def accounts_def)

lemma Find_emit: "Find (emit e st) n = Find st n"
  by (simp add: emit_def Find_def)

lemma cores_emit: "cores (emit e st) = cores st"
  by (simp add: emit_def)

lemma events_sinceI: "trace st' = trace st @ evs \<Longrightarrow> events_since st st' = evs"
  by (simp add: events_since_def)

lemma emit_emits: "emit e st = emits [e] st"
  by (simp add: emit_def emits_def)

lemma emits_emits: "emits b (emits a st) = emits (a @ b) st"
  by (simp add: emits_def)

lemma dtor_emits: "SQLAuthResult_dtor v st = emits [ReqRelease] st"
  by (simp add: SQLAuthResult_dtor_def emit_emits)

lemma trace_emits: "trace (emits evs st) = trace st @ evs"
  by (simp add: emits_def)

lemma Find_emits: "Find (emits evs st) n = Find st n"
  by (simp add: emits_def Find_def)

lemma cores_emits: "cores (emits evs st) = cores st"
  by (simp add: emits_def)

lemma accounts_emits: "accounts (emits evs st) = accounts st"
  by (simp add: emits_def accounts_def)

lemma email_of_emits: "email_of (emits evs st) n = email_of st n"
  by (simp add: email_of_def Find_emits cores_emits)

lemma found_lines_no_req:
  "ReqHold \<notin> set (found_lines a) \<and> ReqRelease \<notin> set (found_lines a) \<and> ReqSuccess \<notin> set (found_lines a)"
  by (simp add: found_lines_def)

lemma found_lines_plain:
  "filter is_creation (found_lines a) = [] \<and> filter is_email_update (found_lines a) = []"
  by (simp add: found_lines_def)

subsection \<open>Facts about \<open>sync\<close>\<close>

lemma sync_trace_absent:
  "Find st a = None \<Longrightarrow>
   trace (sync a u ns e st) =
     trace st @ creation_events a u ns @ (if e \<noteq> [] then email_events a u ns e else [])"
  by (simp add: sync_def Find_def new_NickCore_def new_NickAlias_def set_email_def emit_def
      creation_events_def email_events_def Let_def)

lemma sync_trace_present:
  "Find st a = Some na \<Longrightarrow>
   trace (sync a u ns e st) =
     trace st @ (if e \<noteq> [] \<and> e \<noteq> email (cores st (nc na)) then email_events (na_nick na) u ns e else [])"
  by (simp add: sync_def Find_def set_email_def emit_def email_events_def Let_def)

lemma sync_idem: "sync a u2 ns2 e (sync a u1 ns1 e st) = sync a u1 ns1 e st"
  by (cases "Find st a")
     (auto simp add: sync_def Find_def new_NickCore_def new_NickAlias_def set_email_def emit_def Let_def)

lemma sync_Find: "Find (sync a u ns e st) a \<noteq> None"
  by (cases "Find st a")
     (auto simp add: sync_def Find_def new_NickCore_def new_NickAlias_def set_email_def emit_def Let_def)

lemma sync_email_of:
  "email_of (sync a u ns e st) a =
     Some (if e \<noteq> [] then e else (case email_of st a of None \<Rightarrow> [] | Some old \<Rightarrow> old))"
  by (cases "Find st a")
     (auto simp add: email_of_def sync_def Find_def new_NickCore_def new_NickAlias_def set_email_def emit_def Let_def)

lemma sync_events_emits: "sync_events a u ns e (emits evs st) = sync_events a u ns e st"
  by (cases "Find st a") (simp_all add: sync_events_def Find_emits cores_emits)

lemma sync_trace: "trace (sync a u ns e st) = trace st @ sync_events a u ns e st"
  by (cases "Find st a") (simp_all add: sync_events_def sync_trace_absent sync_trace_present)

lemma sync_creations:
  "length (filter is_creation (sync_events a u ns e st)) = (if Find st a = None then 1 else 0)"
  by (cases "Find st a") (simp_all add: sync_events_def creation_events_def email_events_def)

lemma sync_email_updates: "length (filter is_email_update (sync_events a u ns e st)) \<le> 1"
  by (cases "Find st a") (simp_all add: sync_events_def creation_events_def email_events_def)

lemma sync_no_req:
  "ReqHold \<notin> set (sync_events a u ns e st) \<and> ReqRelease \<notin> set (sync_events a u ns e st)
   \<and> ReqSuccess \<notin> set (sync_events a u ns e st)"
  by (cases "Find st a") (simp_all add: sync_events_def creation_events_def email_events_def)

lemma sync_frame: "n \<noteq> a \<Longrightarrow> Find (sync a u ns e st) n = Find st n"
  by (cases "Find st a")
     (auto simp add: sync_def Find_def new_NickCore_def new_NickAlias_def set_email_def emit_def Let_def)

subsection \<open>The paths of the callbacks\<close>

lemma OnResult_NotFound:
  "Rows r = 0 \<Longrightarrow>
   OnResult crypt ns v r st =
     (NotFound, emits [LogLine LOG_COMMAND (''[sql_auth]: User @'' @ GetAccount (req v) @ ''@ NOT found''),
                       ReqRelease] st)"
  by (simp add: OnResult_def dtor_emits emit_emits emits_emits)

lemma OnResult_HashMalformed:
  "Rows r \<noteq> 0 \<Longrightarrow> normalize_hash (fst (extract_fields r)) = Some h \<Longrightarrow>
   crypt (c_str (currPass v)) (c_str h) = None \<Longrightarrow>
   OnResult crypt ns v r st =
     (HashMalformed,
      emits (found_lines (GetAccount (req v)) @
             [LogLine LOG_COMMAND ''[sql_auth]: Bcrypt comparison failed'', ReqRelease]) st)"
  by (simp add: OnResult_def dtor_emits emit_emits emits_emits found_lines_def Let_def case_prod_beta)

lemma OnResult_Mismatch:
  "Rows r \<noteq> 0 \<Longrightarrow> normalize_hash (fst (extract_fields r)) = Some h \<Longrightarrow>
   crypt (c_str (currPass v)) (c_str h) = Some out \<Longrightarrow> out \<noteq> h \<Longrightarrow>
   OnResult crypt ns v r st =
     (Mismatch,
      emits (found_lines (GetAccount (req v)) @
             [LogLine LOG_COMMAND ''[sql_auth]: ERROR: hash NOT EQUAL pass'',
              LogLine LOG_COMMAND (''[sql_auth]: Unsuccessful authentication for '' @ GetAccount (req v)),
              ReqRelease]) st)"
  by (auto simp add: OnResult_def dtor_emits emit_emits emits_emits found_lines_def Let_def case_prod_beta)

lemma OnResult_Success:
  "Rows r \<noteq> 0 \<Longrightarrow> normalize_hash (fst (extract_fields r)) = Some h \<Longrightarrow>
   crypt (c_str (currPass v)) (c_str h) = Some h \<Longrightarrow>
   OnResult crypt ns v r st =
     (Success,
      emits [ReqSuccess, ReqRelease]
        (sync (GetAccount (req v)) (user v) ns (snd (extract_fields r))
           (emits (found_lines (GetAccount (req v)) @
                   [LogLine LOG_COMMAND (''[sql_auth]: User @'' @ GetAccount (req v) @ ''@ LOGGED IN'')]) st)))"
  by (auto simp add: OnResult_def dtor_emits emit_emits emits_emits found_lines_def Let_def case_prod_beta)

lemma OnError_QueryError:
  "OnError v r st =
     (QueryError,
      emits [LogLine LOG_MODULE (''[sql_auth]: Error when executing query '' @ q_query (GetQuery r)
               @ '': '' @ GetError r), ReqRelease] st)"
  by (simp add: OnError_def dtor_emits emit_emits emits_emits)

lemma extract_fields_no_password:
  "Get r 0 ''password'' = Inl ex \<Longrightarrow> extract_fields r = ([], [])"
  by (simp add: extract_fields_def)

lemma normalize_hash_empty: "normalize_hash [] = Some []"
  by (simp add: normalize_hash_untagged)

lemma c_str_empty: "c_str [] = []"
  by (simp add: c_str_def)

lemma OnResult_cong:
  "Rows r = 0 \<longleftrightarrow> Rows r' = 0 \<Longrightarrow> extract_fields r = extract_fields r' \<Longrightarrow>
   OnResult crypt ns v r st = OnResult crypt ns v r' st"
  by (simp add: OnResult_def)

lemma OnResult_empty_hash:
  assumes "Rows r \<noteq> 0" and "extract_fields r = ([], [])"
      and "crypt (c_str (currPass v)) [] \<noteq> Some []"
  shows "OnResult crypt ns v r st =
           (case crypt (c_str (currPass v)) [] of
              None \<Rightarrow>
                (HashMalformed,
                 emits (found_lines (GetAccount (req v)) @
                        [LogLine LOG_COMMAND ''[sql_auth]: Bcrypt comparison failed'', ReqRelease]) st)
            | Some out \<Rightarrow>
                (Mismatch,
                 emits (found_lines (GetAccount (req v)) @
                        [LogLine LOG_COMMAND ''[sql_auth]: ERROR: hash NOT EQUAL pass'',
                         LogLine LOG_COMMAND (''[sql_auth]: Unsuccessful authentication for ''
                           @ GetAccount (req v)),
                         ReqRelease]) st))"
proof -
  have n: "normalize_hash (fst (extract_fields r)) = Some []"
    by (simp add: assms(2) normalize_hash_empty)
  show ?thesis
  proof (cases "crypt (c_str (currPass v)) []")
    case None
    then have c: "crypt (c_str (currPass v)) (c_str []) = None" by (simp add: c_str_empty)
    show ?thesis
      by (simp add: None OnResult_HashMalformed [where crypt = crypt, OF assms(1) n c])
  next
    case (Some out)
    then have c: "crypt (c_str (currPass v)) (c_str []) = Some out" by (simp add: c_str_empty)
    from Some assms(3) have d: "out \<noteq> []" by simp
    show ?thesis
      by (simp add: Some OnResult_Mismatch [where crypt = crypt, OF assms(1) n c d])
  qed
qed

lemma OnResult_shape:
  "\<exists>mid. trace (snd (OnResult crypt ns v r st)) = trace st @ mid @ [ReqRelease]
         \<and> ReqHold \<notin> set mid \<and> ReqRelease \<notin> set mid"
proof (cases "Rows r = 0")
  case True
  then show ?thesis
    by (simp add: OnResult_NotFound trace_emits)
next
  case rows: False
  obtain h where h: "normalize_hash (fst (extract_fields r)) = Some h"
    using normalize_hash_total by blast
  show ?thesis
  proof (cases "crypt (c_str (currPass v)) (c_str h)")
    case None
    have "ReqHold \<notin> set (found_lines (GetAccount (req v))
             @ [LogLine LOG_COMMAND ''[sql_auth]: Bcrypt comparison failed''])
        \<and> ReqRelease \<notin> set (found_lines (GetAccount (req v))
             @ [LogLine LOG_COMMAND ''[sql_auth]: Bcrypt comparison failed''])"
      by (simp add: found_lines_no_req)
    then show ?thesis
      by (simp only: OnResult_HashMalformed [where crypt = crypt, OF rows h None] snd_conv trace_emits)
         (metis append_assoc append_Cons append_Nil)
  next
    case (Some out)
    show ?thesis
    proof (cases "out = h")
      case False
      let ?mid = "found_lines (GetAccount (req v)) @
                   [LogLine LOG_COMMAND ''[sql_auth]: ERROR: hash NOT EQUAL pass'',
                    LogLine LOG_COMMAND (''[sql_auth]: Unsuccessful authentication for '' @ GetAccount (req v))]"
      have "trace (snd (OnResult crypt ns v r st)) = trace st @ ?mid @ [ReqRelease]"
        by (simp add: OnResult_Mismatch [where crypt = crypt, OF rows h Some False] trace_emits)
      moreover have "ReqHold \<notin> set ?mid \<and> ReqRelease \<notin> set ?mid"
        by (simp add: found_lines_no_req)
      ultimately show ?thesis by blast
    next
      case True
      let ?acct = "GetAccount (req v)"
      let ?lines = "found_lines ?acct @ [LogLine LOG_COMMAND (''[sql_auth]: User @'' @ ?acct @ ''@ LOGGED IN'')]"
      let ?mid = "?lines @ sync_events ?acct (user v) ns (snd (extract_fields r)) st @ [ReqSuccess]"
      from Some True have m: "crypt (c_str (currPass v)) (c_str h) = Some h" by simp
      have "trace (snd (OnResult crypt ns v r st)) = trace st @ ?mid @ [ReqRelease]"
        by (simp add: OnResult_Success [where crypt = crypt, OF rows h m] trace_emits sync_trace
            sync_events_emits)
      moreover have "ReqHold \<notin> set ?mid \<and> ReqRelease \<notin> set ?mid"
        by (simp add: found_lines_no_req sync_no_req)
      ultimately show ?thesis by blast
    qed
  qed
qed

lemma OnResult_no_Fault: "fst (OnResult crypt ns v r st) \<noteq> Fault"
proof -
  obtain h where h: "normalize_hash (fst (extract_fields r)) = Some h"
    using normalize_hash_total by blast
  then show ?thesis
    by (simp add: OnResult_def Let_def case_prod_beta split: option.splits)
qed

lemma OnError_shape:
  "\<exists>mid. trace (snd (OnError v r st)) = trace st @ mid @ [ReqRelease]
         \<and> ReqHold \<notin> set mid \<and> ReqRelease \<notin> set mid"
proof -
  let ?mid = "[LogLine LOG_MODULE (''[sql_auth]: Error when executing query '' @ q_query (GetQuery r)
               @ '': '' @ GetError r)]"
  have "trace (snd (OnError v r st)) = trace st @ ?mid @ [ReqRelease]"
    by (simp add: OnError_QueryError trace_emits)
  moreover have "ReqHold \<notin> set ?mid \<and> ReqRelease \<notin> set ?mid" by simp
  ultimately show ?thesis by blast
qed

lemma deliver_shape:
  "\<exists>mid. trace (snd (deliver crypt ns v c st)) = trace st @ mid @ [ReqRelease]
         \<and> ReqHold \<notin> set mid \<and> ReqRelease \<notin> set mid"
  by (cases c) (simp_all add: deliver_def OnResult_shape OnError_shape)

lemma deliver_no_Fault: "fst (deliver crypt ns v c st) \<noteq> Fault"
  by (cases c) (simp_all add: deliver_def OnResult_no_Fault OnError_def)

section \<open>The properties\<close>

subsection \<open>C3: hash prefix normalisation\<close>

text \<open>
  C3. A stored hash that begins with the 8-character tag \<open>bcrypt$$\<close> is normalised to
  \<open>$\<close> followed by what stood after the tag: the input is the tag followed by that
  remainder, the output starts with \<open>$\<close> and so does not start with the tag. A stored
  hash that does not begin with the tag is returned as it is. The normalisation never
  raises.
\<close>

theorem normalize_hash_prefix:
  "(take 8 h = ''bcrypt$$'' \<longrightarrow>
      normalize_hash h = Some (''$'' @ drop 8 h) \<and> h = ''bcrypt$$'' @ drop 8 h
      \<and> take 8 (''$'' @ drop 8 h) \<noteq> ''bcrypt$$'')
   \<and> (take 8 h \<noteq> ''bcrypt$$'' \<longrightarrow> normalize_hash h = Some h)"
proof (intro conjI impI)
  assume t: "take 8 h = ''bcrypt$$''"
  then show "normalize_hash h = Some (''$'' @ drop 8 h)" by (rule normalize_hash_tagged)
  have "take 8 h @ drop 8 h = h" by (rule append_take_drop_id)
  with t show "h = ''bcrypt$$'' @ drop 8 h" by simp
  show "take 8 (''$'' @ drop 8 h) \<noteq> ''bcrypt$$''"
  proof
    assume "take 8 (''$'' @ drop 8 h) = ''bcrypt$$''"
    then have "hd (take 8 (''$'' @ drop 8 h)) = hd ''bcrypt$$''" by (rule arg_cong)
    then show False by simp
  qed
next
  assume "take 8 h \<noteq> ''bcrypt$$''"
  then show "normalize_hash h = Some h" by (rule normalize_hash_untagged)
qed

theorem normalize_hash_prefix_witness:
  "take 8 ''bcrypt$$2a$10$abcdefghijklmnopqrstuu'' = ''bcrypt$$''
   \<and> normalize_hash ''bcrypt$$2a$10$abcdefghijklmnopqrstuu'' = Some ''$2a$10$abcdefghijklmnopqrstuu''
   \<and> take 8 ''$2a$10$abcdefghijklmnopqrstuu'' \<noteq> ''bcrypt$$''
   \<and> normalize_hash ''$2a$10$abcdefghijklmnopqrstuu'' = Some ''$2a$10$abcdefghijklmnopqrstuu''"
proof -
  have a: "take 8 ''bcrypt$$2a$10$abcdefghijklmnopqrstuu'' = ''bcrypt$$''" by simp
  have b: "take 8 ''$2a$10$abcdefghijklmnopqrstuu'' \<noteq> ''bcrypt$$''" by simp
  from a normalize_hash_prefix [of "''bcrypt$$2a$10$abcdefghijklmnopqrstuu''"]
  have "normalize_hash ''bcrypt$$2a$10$abcdefghijklmnopqrstuu'' = Some ''$2a$10$abcdefghijklmnopqrstuu''"
    by simp
  moreover from b normalize_hash_prefix [of "''$2a$10$abcdefghijklmnopqrstuu''"]
  have "normalize_hash ''$2a$10$abcdefghijklmnopqrstuu'' = Some ''$2a$10$abcdefghijklmnopqrstuu''"
    by blast
  ultimately show ?thesis using a b by blast
qed

subsection \<open>C5: no row\<close>

text \<open>
  C5. On a result with no row \<^verbatim>\<open>OnResult\<close> ends as NotFound: it writes one log line and
  deletes the handler, which releases the request. Success is not reported, and the
  account tables are as they were: no account is created and no email is written.
\<close>

theorem no_rows_not_found:
  "Rows r = 0 \<Longrightarrow>
   OnResult crypt ns v r st =
     (NotFound,
      emits [LogLine LOG_COMMAND (''[sql_auth]: User @'' @ GetAccount (req v) @ ''@ NOT found''),
             ReqRelease] st)
   \<and> accounts (snd (OnResult crypt ns v r st)) = accounts st
   \<and> ReqSuccess \<notin> set (events_since st (snd (OnResult crypt ns v r st)))
   \<and> filter is_creation (events_since st (snd (OnResult crypt ns v r st))) = []
   \<and> filter is_email_update (events_since st (snd (OnResult crypt ns v r st))) = []"
  by (simp add: OnResult_NotFound accounts_emits events_since_def trace_emits)

theorem no_rows_not_found_witness:
  "Rows (rows_of []) = 0
   \<and> OnResult demo_crypt True handler (rows_of []) no_accounts =
       (NotFound,
        emits [LogLine LOG_COMMAND (''[sql_auth]: User @'' @ GetAccount (req handler) @ ''@ NOT found''),
               ReqRelease] no_accounts)"
proof -
  have h: "Rows (rows_of []) = 0" by (simp add: rows_of_def Rows_def)
  from no_rows_not_found [where crypt = demo_crypt and ns = True and v = handler and st = no_accounts, OF h] h
  show ?thesis by blast
qed

subsection \<open>C2: the recomputed hash differs\<close>

text \<open>
  C2. When a row was found, the primitive succeeds and the string it computed differs
  from the normalised stored hash, \<^verbatim>\<open>OnResult\<close> ends as Mismatch: it writes its log lines
  and deletes the handler. Success is not reported, and the account tables are as they
  were: no account is created and no email is written.
\<close>

theorem mismatch_reports_nothing:
  assumes "Rows r \<noteq> 0"
      and "normalize_hash (fst (extract_fields r)) = Some h"
      and "crypt (c_str (currPass v)) (c_str h) = Some out"
      and "out \<noteq> h"
  shows "OnResult crypt ns v r st =
           (Mismatch,
            emits (found_lines (GetAccount (req v)) @
                   [LogLine LOG_COMMAND ''[sql_auth]: ERROR: hash NOT EQUAL pass'',
                    LogLine LOG_COMMAND (''[sql_auth]: Unsuccessful authentication for '' @ GetAccount (req v)),
                    ReqRelease]) st)
         \<and> ReqSuccess \<notin> set (events_since st (snd (OnResult crypt ns v r st)))
         \<and> accounts (snd (OnResult crypt ns v r st)) = accounts st
         \<and> filter is_creation (events_since st (snd (OnResult crypt ns v r st))) = []
         \<and> filter is_email_update (events_since st (snd (OnResult crypt ns v r st))) = []"
  by (simp add: OnResult_Mismatch [where crypt = crypt, OF assms] accounts_emits events_since_def
      trace_emits found_lines_no_req found_lines_plain)

theorem mismatch_reports_nothing_witness:
  "Rows (rows_of [[(''password'', ''$other''), (''email'', ''alice@example.org'')]]) \<noteq> 0
   \<and> normalize_hash (fst (extract_fields
         (rows_of [[(''password'', ''$other''), (''email'', ''alice@example.org'')]]))) = Some ''$other''
   \<and> demo_crypt (c_str (currPass handler)) (c_str ''$other'') = Some ''$secret''
   \<and> ''$secret'' \<noteq> ''$other''
   \<and> fst (OnResult demo_crypt True handler
         (rows_of [[(''password'', ''$other''), (''email'', ''alice@example.org'')]]) no_accounts) = Mismatch
   \<and> accounts (snd (OnResult demo_crypt True handler
         (rows_of [[(''password'', ''$other''), (''email'', ''alice@example.org'')]]) no_accounts))
       = accounts no_accounts"
proof -
  let ?r = "rows_of [[(''password'', ''$other''), (''email'', ''alice@example.org'')]]"
  have h1: "Rows ?r \<noteq> 0"
    by (simp add: fixture_defs run_defs)
  have h2: "normalize_hash (fst (extract_fields ?r)) = Some ''$other''"
    by (simp add: fixture_defs run_defs)
  have h3: "demo_crypt (c_str (currPass handler)) (c_str ''$other'') = Some ''$secret''"
    by (simp add: fixture_defs run_defs)
  have h4: "''$secret'' \<noteq> ''$other''" by simp
  from mismatch_reports_nothing [where crypt = demo_crypt and ns = True and st = no_accounts, OF h1 h2 h3 h4]
  have "fst (OnResult demo_crypt True handler ?r no_accounts) = Mismatch
        \<and> accounts (snd (OnResult demo_crypt True handler ?r no_accounts)) = accounts no_accounts"
    by (elim conjE) simp
  with h1 h2 h3 h4 show ?thesis by blast
qed

subsection \<open>C1: the recomputed hash matches\<close>

text \<open>
  C1. When a row was found, the primitive succeeds and the string it computed equals the
  normalised stored hash, \<^verbatim>\<open>OnResult\<close> ends as Success. The state it leaves is the one
  obtained by writing the log lines, running \<open>sync\<close> once with the account name of the
  request and the email of the row, reporting Success on the request and then releasing
  it. Afterwards the account exists; it was created exactly when it was absent before;
  its email is the external one when that is non-empty, and otherwise what it was (empty
  for a new account); Success is reported once; no other name is touched.
\<close>

theorem success_on_match:
  assumes "Rows r \<noteq> 0"
      and "normalize_hash (fst (extract_fields r)) = Some h"
      and "crypt (c_str (currPass v)) (c_str h) = Some h"
  shows "let acct = GetAccount (req v);
             mail = snd (extract_fields r);
             s3 = emits (found_lines acct @
                    [LogLine LOG_COMMAND (''[sql_auth]: User @'' @ acct @ ''@ LOGGED IN'')]) st;
             s' = snd (OnResult crypt ns v r st)
         in fst (OnResult crypt ns v r st) = Success
            \<and> s' = emits [ReqSuccess, ReqRelease] (sync acct (user v) ns mail s3)
            \<and> events_since st s' =
                 found_lines acct @ [LogLine LOG_COMMAND (''[sql_auth]: User @'' @ acct @ ''@ LOGGED IN'')]
                 @ sync_events acct (user v) ns mail st @ [ReqSuccess, ReqRelease]
            \<and> Find s' acct \<noteq> None
            \<and> email_of s' acct =
                 Some (if mail \<noteq> [] then mail
                       else case email_of st acct of None \<Rightarrow> [] | Some old \<Rightarrow> old)
            \<and> length (filter is_creation (events_since st s')) = (if Find st acct = None then 1 else 0)
            \<and> count_list (events_since st s') ReqSuccess = 1
            \<and> (\<forall>n. n \<noteq> acct \<longrightarrow> Find s' n = Find st n)"
proof -
  define acct where "acct = GetAccount (req v)"
  define mail where "mail = snd (extract_fields r)"
  define lines where "lines = found_lines acct @
                    [LogLine LOG_COMMAND (''[sql_auth]: User @'' @ acct @ ''@ LOGGED IN'')]"
  define s3 where "s3 = emits lines st"
  define s' where "s' = snd (OnResult crypt ns v r st)"
  have run: "OnResult crypt ns v r st = (Success, emits [ReqSuccess, ReqRelease] (sync acct (user v) ns mail s3))"
    unfolding acct_def mail_def s3_def lines_def by (rule OnResult_Success [where crypt = crypt, OF assms])
  then have s': "s' = emits [ReqSuccess, ReqRelease] (sync acct (user v) ns mail s3)"
    by (simp add: s'_def)
  have tr: "trace s' = trace st @ lines @ sync_events acct (user v) ns mail st @ [ReqSuccess, ReqRelease]"
    by (simp add: s' trace_emits sync_trace s3_def sync_events_emits)
  then have ev: "events_since st s' = lines @ sync_events acct (user v) ns mail st @ [ReqSuccess, ReqRelease]"
    by (rule events_sinceI)
  have plain: "filter is_creation lines = []"
    by (simp add: lines_def found_lines_plain)
  have noreq: "ReqSuccess \<notin> set lines"
    by (simp add: lines_def found_lines_no_req)
  have c1: "Find s' acct \<noteq> None"
    by (simp add: s' Find_emits sync_Find)
  have c2: "email_of s' acct =
                 Some (if mail \<noteq> [] then mail
                       else case email_of st acct of None \<Rightarrow> [] | Some old \<Rightarrow> old)"
    by (simp add: s' email_of_emits sync_email_of s3_def)
  have c3: "length (filter is_creation (events_since st s')) = (if Find st acct = None then 1 else 0)"
    by (simp add: ev plain sync_creations)
  have c4: "count_list (events_since st s') ReqSuccess = 1"
    by (simp add: ev noreq sync_no_req)
  have c5: "\<forall>n. n \<noteq> acct \<longrightarrow> Find s' n = Find st n"
    by (simp add: s' Find_emits sync_frame s3_def)
  have ev': "events_since st s' = found_lines acct @ [LogLine LOG_COMMAND (''[sql_auth]: User @'' @ acct @ ''@ LOGGED IN'')]
                 @ sync_events acct (user v) ns mail st @ [ReqSuccess, ReqRelease]"
    by (simp add: ev lines_def)
  from run s' ev' c1 c2 c3 c4 c5 show ?thesis
    unfolding Let_def acct_def [symmetric] mail_def [symmetric] lines_def [symmetric]
      s3_def [symmetric] s'_def [symmetric]
    by simp
qed

theorem success_on_match_witness:
  "Rows (rows_of [[(''password'', ''bcrypt$$secret''), (''email'', ''alice@example.org'')]]) \<noteq> 0
   \<and> normalize_hash (fst (extract_fields
         (rows_of [[(''password'', ''bcrypt$$secret''), (''email'', ''alice@example.org'')]]))) = Some ''$secret''
   \<and> demo_crypt (c_str (currPass handler)) (c_str ''$secret'') = Some ''$secret''
   \<and> fst (OnResult demo_crypt True handler
         (rows_of [[(''password'', ''bcrypt$$secret''), (''email'', ''alice@example.org'')]]) no_accounts) = Success
   \<and> email_of (snd (OnResult demo_crypt True handler
         (rows_of [[(''password'', ''bcrypt$$secret''), (''email'', ''alice@example.org'')]]) no_accounts))
        ''alice'' = Some ''alice@example.org''"
proof -
  let ?r = "rows_of [[(''password'', ''bcrypt$$secret''), (''email'', ''alice@example.org'')]]"
  have h1: "Rows ?r \<noteq> 0"
    by (simp add: fixture_defs run_defs)
  have h2: "normalize_hash (fst (extract_fields ?r)) = Some ''$secret''"
    by (simp add: fixture_defs run_defs)
  have h3: "demo_crypt (c_str (currPass handler)) (c_str ''$secret'') = Some ''$secret''"
    by (simp add: fixture_defs run_defs)
  have acct: "GetAccount (req handler) = ''alice''"
    by (simp add: fixture_defs run_defs)
  have mail: "snd (extract_fields ?r) = ''alice@example.org''"
    by (simp add: fixture_defs run_defs)
  from success_on_match [where crypt = demo_crypt and ns = True and st = no_accounts, OF h1 h2 h3]
  have "fst (OnResult demo_crypt True handler ?r no_accounts) = Success
        \<and> email_of (snd (OnResult demo_crypt True handler ?r no_accounts)) ''alice''
            = Some ''alice@example.org''"
    unfolding Let_def acct mail by (elim conjE) simp
  with h1 h2 h3 show ?thesis by blast
qed

subsection \<open>C4: one hold, one release\<close>

text \<open>
  C4. When a provider is available, \<^verbatim>\<open>OnCheckAuthentication\<close> constructs the handler and
  the provider completes the query by \<^verbatim>\<open>OnResult\<close> or \<^verbatim>\<open>OnError\<close>. Whatever the completion,
  the attempt ends on one of the five outcomes and its events are: the Hold of the
  constructor first, the Release of the destructor last, and neither a Hold nor a Release
  in between. No exception leaves the callback.
\<close>

theorem attempt_hold_release:
  assumes "SQL m"
  shows "\<exists>out s' mid.
           attempt crypt ns m u r gone c st = (Some out, s')
           \<and> out \<noteq> Fault
           \<and> trace s' = trace st @ [ReqHold] @ mid @ [ReqRelease]
           \<and> ReqHold \<notin> set mid \<and> ReqRelease \<notin> set mid"
proof -
  obtain v s1 where d: "OnCheckAuthentication m u r st = (Some v, s1)"
    and t1: "\<exists>q l. trace s1 = trace st @ [ReqHold, Run q, LogLine LOG_COMMAND l]"
    using assms
    by (simp add: OnCheckAuthentication_def SQLAuthResult_ctor_def Let_def emit_def)
  from t1 obtain q l where t1': "trace s1 = trace st @ [ReqHold, Run q, LogLine LOG_COMMAND l]"
    by blast
  define v' where "v' = (if gone then v\<lparr>user := None\<rparr> else v)"
  obtain out s' where run: "deliver crypt ns v' c s1 = (out, s')"
    by (cases "deliver crypt ns v' c s1")
  from deliver_shape [of crypt ns v' c s1] run
  obtain mid where t2: "trace s' = trace s1 @ mid @ [ReqRelease]"
    and m: "ReqHold \<notin> set mid" "ReqRelease \<notin> set mid"
    by auto
  from deliver_no_Fault [of crypt ns v' c s1] run have nf: "out \<noteq> Fault" by simp
  have a: "attempt crypt ns m u r gone c st = (Some out, s')"
    using run by (simp add: attempt_def d v'_def Let_def)
  let ?mid = "[Run q, LogLine LOG_COMMAND l] @ mid"
  have "trace s' = trace st @ [ReqHold] @ ?mid @ [ReqRelease]"
    by (simp add: t1' t2)
  moreover have "ReqHold \<notin> set ?mid \<and> ReqRelease \<notin> set ?mid"
    using m by simp
  ultimately show ?thesis using a nf by blast
qed

theorem attempt_hold_release_witness:
  "SQL (sqlauth True)
   \<and> fst (attempt demo_crypt True (sqlauth True) None alice False (Failed (rows_of [])) no_accounts)
       = Some QueryError
   \<and> fst (attempt demo_crypt True (sqlauth True) None alice False (Answered (rows_of [])) no_accounts)
       = Some NotFound
   \<and> fst (attempt demo_crypt True (sqlauth True) None alice False
            (Answered (rows_of [[(''password'', ''nohash'')]])) no_accounts)
       = Some HashMalformed
   \<and> fst (attempt demo_crypt True (sqlauth True) None alice False
            (Answered (rows_of [[(''password'', ''$other'')]])) no_accounts)
       = Some Mismatch
   \<and> fst (attempt demo_crypt True (sqlauth True) None alice False
            (Answered (rows_of [[(''password'', ''bcrypt$$secret'')]])) no_accounts)
       = Some Success
   \<and> count_list (trace (snd (attempt demo_crypt True (sqlauth True) None alice False
                               (Answered (rows_of [[(''password'', ''bcrypt$$secret'')]])) no_accounts)))
        ReqHold = 1
   \<and> count_list (trace (snd (attempt demo_crypt True (sqlauth True) None alice False
                               (Answered (rows_of [[(''password'', ''bcrypt$$secret'')]])) no_accounts)))
        ReqRelease = 1"
proof -
  let ?c = "Answered (rows_of [[(''password'', ''bcrypt$$secret'')]])"
  have h: "SQL (sqlauth True)" by (simp add: sqlauth_def)
  from attempt_hold_release [OF h, of demo_crypt True None alice False ?c no_accounts]
  obtain out s' mid where
    a: "attempt demo_crypt True (sqlauth True) None alice False ?c no_accounts = (Some out, s')"
    and t: "trace s' = trace no_accounts @ [ReqHold] @ mid @ [ReqRelease]"
    and m: "ReqHold \<notin> set mid" "ReqRelease \<notin> set mid"
    by blast
  have e: "trace no_accounts = []" by (simp add: no_accounts_def)
  have c: "count_list (trace s') ReqHold = 1 \<and> count_list (trace s') ReqRelease = 1"
    using m by (simp add: t e)
  have o1: "fst (attempt demo_crypt True (sqlauth True) None alice False (Failed (rows_of [])) no_accounts)
       = Some QueryError"
    by (simp add: fixture_defs run_defs Let_def)
  have o2: "fst (attempt demo_crypt True (sqlauth True) None alice False (Answered (rows_of [])) no_accounts)
       = Some NotFound"
    by (simp add: fixture_defs run_defs Let_def)
  have o3: "fst (attempt demo_crypt True (sqlauth True) None alice False
            (Answered (rows_of [[(''password'', ''nohash'')]])) no_accounts)
       = Some HashMalformed"
    by (simp add: fixture_defs run_defs Let_def)
  have o4: "fst (attempt demo_crypt True (sqlauth True) None alice False
            (Answered (rows_of [[(''password'', ''$other'')]])) no_accounts)
       = Some Mismatch"
    by (simp add: fixture_defs run_defs Let_def)
  have o5: "fst (attempt demo_crypt True (sqlauth True) None alice False ?c no_accounts) = Some Success"
    by (simp add: fixture_defs run_defs Let_def)
  from h o1 o2 o3 o4 o5 c a show ?thesis by simp
qed

subsection \<open>C9: no provider\<close>

text \<open>
  C9. When no SQL provider is available, \<^verbatim>\<open>OnCheckAuthentication\<close> writes one log line and
  returns: no handler is constructed, no query is given to a provider, and the request
  is neither held nor released. The attempt ends there.
\<close>

theorem no_engine_no_dispatch:
  "\<not> SQL m \<Longrightarrow>
   OnCheckAuthentication m u r st =
     (None, emits [LogLine LOG_MODULE ''[sql_auth]: Unable to find SQL engine''] st)
   \<and> events_since st (snd (OnCheckAuthentication m u r st)) =
       [LogLine LOG_MODULE ''[sql_auth]: Unable to find SQL engine'']
   \<and> attempt crypt ns m u r gone c st =
     (None, emits [LogLine LOG_MODULE ''[sql_auth]: Unable to find SQL engine''] st)"
  by (simp add: attempt_def OnCheckAuthentication_def emit_emits events_since_def trace_emits)

theorem no_engine_no_dispatch_witness:
  "\<not> SQL (sqlauth False)
   \<and> OnCheckAuthentication (sqlauth False) None alice no_accounts =
     (None, emits [LogLine LOG_MODULE ''[sql_auth]: Unable to find SQL engine''] no_accounts)"
proof -
  have h: "\<not> SQL (sqlauth False)" by (simp add: sqlauth_def)
  from no_engine_no_dispatch [OF h, where crypt = demo_crypt] h show ?thesis by blast
qed

subsection \<open>C6: the primitive fails\<close>

text \<open>
  C6. When a row was found and the primitive reports failure on the normalised stored
  hash, \<^verbatim>\<open>OnResult\<close> ends as HashMalformed: it writes its log lines and deletes the
  handler, and Success is not reported. In particular, when the row has no password
  column the hash is the empty string, the primitive is given the empty setting, and if
  it fails on that (as bcrypt does) the outcome is HashMalformed.
\<close>

theorem primitive_failure_hash_malformed:
  "(Rows r \<noteq> 0 \<and> normalize_hash (fst (extract_fields r)) = Some h
      \<and> crypt (c_str (currPass v)) (c_str h) = None
    \<longrightarrow> OnResult crypt ns v r st =
          (HashMalformed,
           emits (found_lines (GetAccount (req v)) @
                  [LogLine LOG_COMMAND ''[sql_auth]: Bcrypt comparison failed'', ReqRelease]) st)
        \<and> ReqSuccess \<notin> set (events_since st (snd (OnResult crypt ns v r st))))
   \<and> (Rows r \<noteq> 0 \<and> Get r 0 ''password'' = Inl ex \<and> crypt (c_str (currPass v)) [] = None
    \<longrightarrow> fst (extract_fields r) = []
        \<and> OnResult crypt ns v r st =
          (HashMalformed,
           emits (found_lines (GetAccount (req v)) @
                  [LogLine LOG_COMMAND ''[sql_auth]: Bcrypt comparison failed'', ReqRelease]) st)
        \<and> ReqSuccess \<notin> set (events_since st (snd (OnResult crypt ns v r st))))"
proof (intro conjI impI)
  assume a: "Rows r \<noteq> 0 \<and> normalize_hash (fst (extract_fields r)) = Some h
      \<and> crypt (c_str (currPass v)) (c_str h) = None"
  then have run: "OnResult crypt ns v r st =
          (HashMalformed,
           emits (found_lines (GetAccount (req v)) @
                  [LogLine LOG_COMMAND ''[sql_auth]: Bcrypt comparison failed'', ReqRelease]) st)"
    by (simp add: OnResult_HashMalformed [where crypt = crypt and h = h])
  then show "OnResult crypt ns v r st =
          (HashMalformed,
           emits (found_lines (GetAccount (req v)) @
                  [LogLine LOG_COMMAND ''[sql_auth]: Bcrypt comparison failed'', ReqRelease]) st)" .
  show "ReqSuccess \<notin> set (events_since st (snd (OnResult crypt ns v r st)))"
    by (simp add: run events_since_def trace_emits found_lines_no_req)
next
  assume a: "Rows r \<noteq> 0 \<and> Get r 0 ''password'' = Inl ex \<and> crypt (c_str (currPass v)) [] = None"
  then have e: "extract_fields r = ([], [])" by (simp add: extract_fields_no_password)
  then show "fst (extract_fields r) = []" by simp
  from a e have run: "OnResult crypt ns v r st =
          (HashMalformed,
           emits (found_lines (GetAccount (req v)) @
                  [LogLine LOG_COMMAND ''[sql_auth]: Bcrypt comparison failed'', ReqRelease]) st)"
    by (simp add: OnResult_HashMalformed [where crypt = crypt and h = "[]"] normalize_hash_empty c_str_empty)
  then show "OnResult crypt ns v r st =
          (HashMalformed,
           emits (found_lines (GetAccount (req v)) @
                  [LogLine LOG_COMMAND ''[sql_auth]: Bcrypt comparison failed'', ReqRelease]) st)" .
  show "ReqSuccess \<notin> set (events_since st (snd (OnResult crypt ns v r st)))"
    by (simp add: run events_since_def trace_emits found_lines_no_req)
qed

theorem primitive_failure_hash_malformed_witness:
  "Rows (rows_of [[(''password'', ''nohash'')]]) \<noteq> 0
   \<and> normalize_hash (fst (extract_fields (rows_of [[(''password'', ''nohash'')]]))) = Some ''nohash''
   \<and> demo_crypt (c_str (currPass handler)) (c_str ''nohash'') = None
   \<and> fst (OnResult demo_crypt True handler (rows_of [[(''password'', ''nohash'')]]) no_accounts)
       = HashMalformed
   \<and> Rows (rows_of [[(''email'', ''alice@example.org'')]]) \<noteq> 0
   \<and> Get (rows_of [[(''email'', ''alice@example.org'')]]) 0 ''password''
       = Inl (Exception ''Unknown column name in SQLResult: password'')
   \<and> demo_crypt (c_str (currPass handler)) [] = None
   \<and> fst (OnResult demo_crypt True handler (rows_of [[(''email'', ''alice@example.org'')]]) no_accounts)
       = HashMalformed"
proof -
  let ?r1 = "rows_of [[(''password'', ''nohash'')]]"
  let ?r2 = "rows_of [[(''email'', ''alice@example.org'')]]"
  have a1: "Rows ?r1 \<noteq> 0" by (simp add: fixture_defs run_defs)
  have a2: "normalize_hash (fst (extract_fields ?r1)) = Some ''nohash''"
    by (simp add: fixture_defs run_defs)
  have a3: "demo_crypt (c_str (currPass handler)) (c_str ''nohash'') = None"
    by (simp add: fixture_defs run_defs)
  have b1: "Rows ?r2 \<noteq> 0" by (simp add: fixture_defs run_defs)
  have b2: "Get ?r2 0 ''password'' = Inl (Exception ''Unknown column name in SQLResult: password'')"
    by (simp add: fixture_defs run_defs)
  have b3: "demo_crypt (c_str (currPass handler)) [] = None"
    by (simp add: fixture_defs run_defs)
  from a1 a2 a3
    primitive_failure_hash_malformed [where crypt = demo_crypt and r = ?r1 and h = "''nohash''"
      and v = handler and ns = True and st = no_accounts]
  have c1: "fst (OnResult demo_crypt True handler ?r1 no_accounts) = HashMalformed"
    by simp
  from b1 b2 b3
    primitive_failure_hash_malformed [where crypt = demo_crypt and r = ?r2
      and ex = "Exception ''Unknown column name in SQLResult: password''"
      and v = handler and ns = True and st = no_accounts]
  have c2: "fst (OnResult demo_crypt True handler ?r2 no_accounts) = HashMalformed"
    by simp
  from a1 a2 a3 b1 b2 b3 c1 c2 show ?thesis by blast
qed

subsection \<open>C10: tolerant field extraction\<close>

text \<open>
  C10. Reading the fields of the first row: when the row has a password but no email
  column the hash is the password and the email is empty, and \<^verbatim>\<open>OnResult\<close> goes on as on
  a row whose email is the empty string; when it has no password column both are empty,
  whatever the email column holds; when it has both, both are read. With no password
  column \<^verbatim>\<open>OnResult\<close> goes on as on a row whose password and email are empty strings and
  ends on an outcome that follows the primitive, never on NotFound, QueryError or an
  exception. The primitive is then given the empty setting, and verification fails: when
  the primitive returns null the handler writes its two log lines and
  \<open>Bcrypt comparison failed\<close> and is deleted (HashMalformed); when it returns a string,
  which is not empty, the handler writes its two log lines and the two lines of a failed
  comparison and is deleted (Mismatch). On both paths the new events are exactly these
  lines and the Release, Success is not reported and the account tables are unchanged.
  (The primitive is a parameter; bcrypt returns null for the empty setting, and no hash
  it computes is the empty string.)
\<close>

theorem extract_fields_tolerant:
  "(Get r 0 ''password'' = Inr h \<and> Get r 0 ''email'' = Inl ex \<longrightarrow>
        extract_fields r = (h, [])
        \<and> (Rows r \<noteq> 0 \<longrightarrow>
             OnResult crypt ns v r st =
               OnResult crypt ns v (r\<lparr>entries := [[(''password'', h), (''email'', [])]]\<rparr>) st))
   \<and> (Get r 0 ''password'' = Inl ex \<longrightarrow> extract_fields r = ([], []))
   \<and> (Get r 0 ''password'' = Inr h \<and> Get r 0 ''email'' = Inr e \<longrightarrow> extract_fields r = (h, e))
   \<and> (Rows r \<noteq> 0 \<and> Get r 0 ''password'' = Inl ex \<longrightarrow>
        OnResult crypt ns v r st =
          OnResult crypt ns v (r\<lparr>entries := [[(''password'', []), (''email'', [])]]\<rparr>) st
        \<and> fst (OnResult crypt ns v r st) \<notin> {NotFound, QueryError, Fault}
        \<and> (crypt (c_str (currPass v)) [] = None \<longrightarrow> fst (OnResult crypt ns v r st) = HashMalformed))
   \<and> (Rows r \<noteq> 0 \<and> Get r 0 ''password'' = Inl ex \<and> crypt (c_str (currPass v)) [] \<noteq> Some [] \<longrightarrow>
        OnResult crypt ns v r st =
          (case crypt (c_str (currPass v)) [] of
             None \<Rightarrow>
               (HashMalformed,
                emits (found_lines (GetAccount (req v)) @
                       [LogLine LOG_COMMAND ''[sql_auth]: Bcrypt comparison failed'', ReqRelease]) st)
           | Some out \<Rightarrow>
               (Mismatch,
                emits (found_lines (GetAccount (req v)) @
                       [LogLine LOG_COMMAND ''[sql_auth]: ERROR: hash NOT EQUAL pass'',
                        LogLine LOG_COMMAND (''[sql_auth]: Unsuccessful authentication for ''
                          @ GetAccount (req v)),
                        ReqRelease]) st))
        \<and> ReqSuccess \<notin> set (events_since st (snd (OnResult crypt ns v r st)))
        \<and> accounts (snd (OnResult crypt ns v r st)) = accounts st)"
proof (intro conjI impI)
  assume a: "Get r 0 ''password'' = Inr h \<and> Get r 0 ''email'' = Inl ex"
  then show e: "extract_fields r = (h, [])" by (simp add: extract_fields_def)
  assume rows: "Rows r \<noteq> 0"
  have e': "extract_fields (r\<lparr>entries := [[(''password'', h), (''email'', [])]]\<rparr>) = (h, [])"
    by (simp add: extract_fields_def Get_def)
  have "Rows (r\<lparr>entries := [[(''password'', h), (''email'', [])]]\<rparr>) \<noteq> 0"
    by (simp add: Rows_def)
  with rows e e' show "OnResult crypt ns v r st =
          OnResult crypt ns v (r\<lparr>entries := [[(''password'', h), (''email'', [])]]\<rparr>) st"
    by (intro OnResult_cong) simp_all
next
  assume "Get r 0 ''password'' = Inl ex"
  then show "extract_fields r = ([], [])" by (rule extract_fields_no_password)
next
  assume "Get r 0 ''password'' = Inr h \<and> Get r 0 ''email'' = Inr e"
  then show "extract_fields r = (h, e)" by (simp add: extract_fields_def)
next
  assume a: "Rows r \<noteq> 0 \<and> Get r 0 ''password'' = Inl ex"
  then have e: "extract_fields r = ([], [])" by (simp add: extract_fields_no_password)
  have e': "extract_fields (r\<lparr>entries := [[(''password'', []), (''email'', [])]]\<rparr>) = ([], [])"
    by (simp add: extract_fields_def Get_def)
  have "Rows (r\<lparr>entries := [[(''password'', []), (''email'', [])]]\<rparr>) \<noteq> 0"
    by (simp add: Rows_def)
  with a e e' show "OnResult crypt ns v r st =
          OnResult crypt ns v (r\<lparr>entries := [[(''password'', []), (''email'', [])]]\<rparr>) st"
    by (intro OnResult_cong) simp_all
  from a e show "fst (OnResult crypt ns v r st) \<notin> {NotFound, QueryError, Fault}"
    by (simp add: OnResult_def normalize_hash_empty Let_def split: option.splits)
  assume "crypt (c_str (currPass v)) [] = None"
  with a e show "fst (OnResult crypt ns v r st) = HashMalformed"
    by (simp add: OnResult_HashMalformed [where crypt = crypt and h = "[]"] normalize_hash_empty c_str_empty)
next
  assume a: "Rows r \<noteq> 0 \<and> Get r 0 ''password'' = Inl ex \<and> crypt (c_str (currPass v)) [] \<noteq> Some []"
  then have rows: "Rows r \<noteq> 0" and e: "extract_fields r = ([], [])"
    and c: "crypt (c_str (currPass v)) [] \<noteq> Some []"
    by (simp_all add: extract_fields_no_password)
  note run = OnResult_empty_hash [where crypt = crypt and ns = ns and st = st, OF rows e c]
  show "OnResult crypt ns v r st =
          (case crypt (c_str (currPass v)) [] of
             None \<Rightarrow>
               (HashMalformed,
                emits (found_lines (GetAccount (req v)) @
                       [LogLine LOG_COMMAND ''[sql_auth]: Bcrypt comparison failed'', ReqRelease]) st)
           | Some out \<Rightarrow>
               (Mismatch,
                emits (found_lines (GetAccount (req v)) @
                       [LogLine LOG_COMMAND ''[sql_auth]: ERROR: hash NOT EQUAL pass'',
                        LogLine LOG_COMMAND (''[sql_auth]: Unsuccessful authentication for ''
                          @ GetAccount (req v)),
                        ReqRelease]) st))"
    by (rule run)
  show "ReqSuccess \<notin> set (events_since st (snd (OnResult crypt ns v r st)))"
    by (cases "crypt (c_str (currPass v)) []")
       (simp_all add: run events_since_def trace_emits found_lines_no_req)
  show "accounts (snd (OnResult crypt ns v r st)) = accounts st"
    by (cases "crypt (c_str (currPass v)) []") (simp_all add: run accounts_emits)
qed

theorem extract_fields_tolerant_witness:
  "Get (rows_of [[(''password'', ''$other'')]]) 0 ''password'' = Inr ''$other''
   \<and> Get (rows_of [[(''password'', ''$other'')]]) 0 ''email''
       = Inl (Exception ''Unknown column name in SQLResult: email'')
   \<and> extract_fields (rows_of [[(''password'', ''$other'')]]) = (''$other'', [])
   \<and> Rows (rows_of [[(''email'', ''alice@example.org'')]]) \<noteq> 0
   \<and> Get (rows_of [[(''email'', ''alice@example.org'')]]) 0 ''password''
       = Inl (Exception ''Unknown column name in SQLResult: password'')
   \<and> extract_fields (rows_of [[(''email'', ''alice@example.org'')]]) = ([], [])
   \<and> demo_crypt (c_str (currPass handler)) [] = None
   \<and> OnResult demo_crypt True handler (rows_of [[(''email'', ''alice@example.org'')]]) no_accounts
       = (HashMalformed,
          emits (found_lines ''alice'' @
                 [LogLine LOG_COMMAND ''[sql_auth]: Bcrypt comparison failed'', ReqRelease]) no_accounts)
   \<and> lenient_crypt (c_str (currPass handler)) [] = Some ''$secret''
   \<and> OnResult lenient_crypt True handler (rows_of [[(''email'', ''alice@example.org'')]]) no_accounts
       = (Mismatch,
          emits (found_lines ''alice'' @
                 [LogLine LOG_COMMAND ''[sql_auth]: ERROR: hash NOT EQUAL pass'',
                  LogLine LOG_COMMAND ''[sql_auth]: Unsuccessful authentication for alice'',
                  ReqRelease]) no_accounts)
   \<and> Get (rows_of [[(''password'', ''$other''), (''email'', ''alice@example.org'')]]) 0 ''email''
       = Inr ''alice@example.org''
   \<and> extract_fields (rows_of [[(''password'', ''$other''), (''email'', ''alice@example.org'')]])
       = (''$other'', ''alice@example.org'')"
proof -
  let ?r1 = "rows_of [[(''password'', ''$other'')]]"
  let ?r2 = "rows_of [[(''email'', ''alice@example.org'')]]"
  let ?r3 = "rows_of [[(''password'', ''$other''), (''email'', ''alice@example.org'')]]"
  let ?ex = "Exception ''Unknown column name in SQLResult: password''"
  have a1: "Get ?r1 0 ''password'' = Inr ''$other''" by (simp add: fixture_defs run_defs)
  have a2: "Get ?r1 0 ''email'' = Inl (Exception ''Unknown column name in SQLResult: email'')"
    by (simp add: fixture_defs run_defs)
  have b1: "Rows ?r2 \<noteq> 0" by (simp add: fixture_defs run_defs)
  have b2: "Get ?r2 0 ''password'' = Inl ?ex"
    by (simp add: fixture_defs run_defs)
  have b3: "demo_crypt (c_str (currPass handler)) [] = None"
    by (simp add: fixture_defs run_defs)
  have b4: "lenient_crypt (c_str (currPass handler)) [] = Some ''$secret''"
    by (simp add: fixture_defs run_defs)
  have acct: "GetAccount (req handler) = ''alice''"
    by (simp add: fixture_defs run_defs)
  have c1: "Get ?r3 0 ''password'' = Inr ''$other''" by (simp add: fixture_defs run_defs)
  have c2: "Get ?r3 0 ''email'' = Inr ''alice@example.org''" by (simp add: fixture_defs run_defs)
  from a1 a2
    extract_fields_tolerant [where r = ?r1 and h = "''$other''"
      and ex = "Exception ''Unknown column name in SQLResult: email''"]
  have r1: "extract_fields ?r1 = (''$other'', [])" by blast
  have b3': "demo_crypt (c_str (currPass handler)) [] \<noteq> Some []" by (simp add: b3)
  from b1 b2 b3'
    extract_fields_tolerant [where r = ?r2 and crypt = demo_crypt and v = handler and ns = True
      and st = no_accounts and ex = ?ex]
  have "extract_fields ?r2 = ([], [])
        \<and> OnResult demo_crypt True handler ?r2 no_accounts =
          (case demo_crypt (c_str (currPass handler)) [] of
             None \<Rightarrow>
               (HashMalformed,
                emits (found_lines (GetAccount (req handler)) @
                       [LogLine LOG_COMMAND ''[sql_auth]: Bcrypt comparison failed'', ReqRelease]) no_accounts)
           | Some out \<Rightarrow>
               (Mismatch,
                emits (found_lines (GetAccount (req handler)) @
                       [LogLine LOG_COMMAND ''[sql_auth]: ERROR: hash NOT EQUAL pass'',
                        LogLine LOG_COMMAND (''[sql_auth]: Unsuccessful authentication for ''
                          @ GetAccount (req handler)),
                        ReqRelease]) no_accounts))"
    by blast
  then have r2: "extract_fields ?r2 = ([], [])
        \<and> OnResult demo_crypt True handler ?r2 no_accounts =
            (HashMalformed,
             emits (found_lines ''alice'' @
                    [LogLine LOG_COMMAND ''[sql_auth]: Bcrypt comparison failed'', ReqRelease]) no_accounts)"
    by (simp add: b3 acct)
  have b4': "lenient_crypt (c_str (currPass handler)) [] \<noteq> Some []" by (simp add: b4)
  from b1 b2 b4'
    extract_fields_tolerant [where r = ?r2 and crypt = lenient_crypt and v = handler and ns = True
      and st = no_accounts and ex = ?ex]
  have "OnResult lenient_crypt True handler ?r2 no_accounts =
          (case lenient_crypt (c_str (currPass handler)) [] of
             None \<Rightarrow>
               (HashMalformed,
                emits (found_lines (GetAccount (req handler)) @
                       [LogLine LOG_COMMAND ''[sql_auth]: Bcrypt comparison failed'', ReqRelease]) no_accounts)
           | Some out \<Rightarrow>
               (Mismatch,
                emits (found_lines (GetAccount (req handler)) @
                       [LogLine LOG_COMMAND ''[sql_auth]: ERROR: hash NOT EQUAL pass'',
                        LogLine LOG_COMMAND (''[sql_auth]: Unsuccessful authentication for ''
                          @ GetAccount (req handler)),
                        ReqRelease]) no_accounts))"
    by blast
  then have r2': "OnResult lenient_crypt True handler ?r2 no_accounts =
            (Mismatch,
             emits (found_lines ''alice'' @
                    [LogLine LOG_COMMAND ''[sql_auth]: ERROR: hash NOT EQUAL pass'',
                     LogLine LOG_COMMAND ''[sql_auth]: Unsuccessful authentication for alice'',
                     ReqRelease]) no_accounts)"
    by (simp add: b4 acct)
  from c1 c2
    extract_fields_tolerant [where r = ?r3 and h = "''$other''" and e = "''alice@example.org''"]
  have r3: "extract_fields ?r3 = (''$other'', ''alice@example.org'')" by blast
  from a1 a2 b1 b2 b3 b4 c2 r1 r2 r2' r3 show ?thesis by blast
qed

subsection \<open>C8: running the synchronisation twice\<close>

text \<open>
  C8 (as amended). Running \<open>sync\<close> twice in sequence with the same account name and
  email, whatever the session and the service bot are at each of the two runs: the
  second run changes nothing, neither the account tables nor the trace, so it emits no
  event. In total there is at most one account creation (exactly one when no account of
  that name existed before the first run, none when one existed) and at most one email
  update.
\<close>

theorem sync_idempotent:
  "let s1 = sync a u1 ns1 e st; s2 = sync a u2 ns2 e s1
   in s2 = s1
      \<and> events_since s1 s2 = []
      \<and> accounts s2 = accounts s1
      \<and> length (filter is_creation (events_since st s2)) = (if Find st a = None then 1 else 0)
      \<and> length (filter is_email_update (events_since st s2)) \<le> 1"
proof -
  have ev: "events_since st (sync a u1 ns1 e st) = sync_events a u1 ns1 e st"
    by (rule events_sinceI) (rule sync_trace)
  have same: "events_since (sync a u1 ns1 e st) (sync a u1 ns1 e st) = []"
    by (simp add: events_since_def)
  show ?thesis
    unfolding Let_def sync_idem
    using sync_email_updates [of a u1 ns1 e st]
    by (simp add: ev same sync_creations)
qed

text \<open>
  C8 as first stated asks for exactly one account creation in total. For an account that
  is already registered the two runs create nothing: the number of creations is not one.
\<close>

theorem existing_account_no_creation:
  "length (filter is_creation
     (events_since alice_registered
        (sync ''alice'' None True ''alice@example.org''
           (sync ''alice'' None True ''alice@example.org'' alice_registered)))) \<noteq> 1"
  by (simp add: alice_registered_def sync_def Find_def events_since_def Let_def)

end
